theory Spec2Isabelle
  imports Main
begin

section \<open>Values and rows (lib/api.ts)\<close>

text \<open>
  Preview rows are \<^verbatim>\<open>Record<string, any>\<close>. The values of a JSON preview are modelled
  as a closed variant of scalars; \<open>JUndefined\<close> is what reading an absent key gives. A row
  lists its keys with their values, each key once. Numbers are restricted to integer
  values, whose \<^verbatim>\<open>String(...)\<close> is the plain decimal numeral (fractions, NaN,
  infinities and nested objects are outside the model).
\<close>

datatype jsval = JUndefined | JNull | JBool bool | JNum int | JStr string

type_synonym row = "(string \<times> jsval) list"

text \<open>\<^verbatim>\<open>row[key]\<close>: reading a key of an object, \<^verbatim>\<open>undefined\<close> when the key is absent.\<close>

definition row_get :: "row \<Rightarrow> string \<Rightarrow> jsval" where
  "row_get r k = (case map_of r k of None \<Rightarrow> JUndefined | Some v \<Rightarrow> v)"

text \<open>\<^verbatim>\<open>xs[i]\<close> on an array: \<^verbatim>\<open>undefined\<close> (here \<open>None\<close>) out of range.\<close>

definition at_index :: "'a list \<Rightarrow> nat \<Rightarrow> 'a option" where
  "at_index xs i = (if i < length xs then Some (xs ! i) else None)"

definition digit_char :: "nat \<Rightarrow> char" where
  "digit_char d = char_of (48 + d)"

fun decimal :: "nat \<Rightarrow> string" where
  "decimal n = (if n < 10 then [digit_char n] else decimal (n div 10) @ [digit_char (n mod 10)])"

declare decimal.simps [simp del]

text \<open>\<^verbatim>\<open>String(v)\<close>.\<close>

fun String_js :: "jsval \<Rightarrow> string" where
  "String_js JUndefined = ''undefined''"
| "String_js JNull = ''null''"
| "String_js (JBool b) = (if b then ''true'' else ''false'')"
| "String_js (JNum n) = (if n < 0 then CHR ''-'' # decimal (nat (- n)) else decimal (nat n))"
| "String_js (JStr s) = s"

text \<open>\<^verbatim>\<open>v ?? ''\<close>: the empty string replaces \<^verbatim>\<open>null\<close> and \<^verbatim>\<open>undefined\<close> only.\<close>

fun nullish_empty :: "jsval \<Rightarrow> jsval" where
  "nullish_empty JUndefined = JStr ''''"
| "nullish_empty JNull = JStr ''''"
| "nullish_empty v = v"

record ColumnProfile =
  name :: string
  dtype :: string
  null_count :: int
  unique_count :: int
  sample_values :: "jsval list"

record DatasetProfile =
  dp_job_id :: string
  dp_filename :: string
  dp_total_rows :: int
  dp_columns :: "ColumnProfile list"
  dp_preview :: "row list"

record TransformStep =
  operation :: string
  parameters :: row
  target_column :: "string option"
  explanation :: "string option"

record PlanResponse =
  pr_job_id :: string
  pr_steps :: "TransformStep list"
  pr_estimated_impact :: string

datatype status = Pending | Analyzing | Ready | Processing | Completed | Failed

record ExecutionResult =
  er_job_id :: string
  er_status :: status
  er_download_url :: "string option"
  er_metrics :: row
  er_error :: "string option"
  er_preview :: "row list option"

record File =
  file_name :: string
  file_size :: nat

section \<open>The job gateway\<close>

text \<open>
  A rejected call carries \<^verbatim>\<open>err.response?.data?.detail\<close>: \<open>None\<close> when any link of the
  chain is absent or null. A call either rejects (\<open>Inl\<close>) or resolves (\<open>Inr\<close>).
  \<^verbatim>\<open>uploadFile\<close> also reports the percentages it passes to \<^verbatim>\<open>onProgress\<close> before it
  settles.
\<close>

type_synonym gw_error = "string option"

record gateway =
  uploadFile :: "File \<Rightarrow> int list \<times> (gw_error + DatasetProfile)"
  generatePlan :: "string \<Rightarrow> string \<Rightarrow> gw_error + PlanResponse"
  executePlan :: "string \<Rightarrow> gw_error + ExecutionResult"

text \<open>The requests a handler issues, in order (the body of \<^verbatim>\<open>/execute\<close> has \<^verbatim>\<open>approved: true\<close>).\<close>

datatype request =
  UploadReq File
| TransformReq string string
| ExecuteReq string bool

section \<open>The controller (hooks/useDataTransform.ts)\<close>

record state =
  jobId :: "string option"
  datasetProfile :: "DatasetProfile option"
  proposedSteps :: "TransformStep list"
  isProcessing :: bool
  error :: "string option"
  uploadProgress :: int
  executionResult :: "ExecutionResult option"
  currentData :: "row list"

definition initial :: state where
  "initial = \<lparr> jobId = None, datasetProfile = None, proposedSteps = [], isProcessing = False,
     error = None, uploadProgress = 0, executionResult = None, currentData = [] \<rparr>"

text \<open>\<^verbatim>\<open>!jobId\<close> is true for \<^verbatim>\<open>null\<close> and for the empty string.\<close>

definition truthy :: "string option \<Rightarrow> bool" where
  "truthy v = (case v of None \<Rightarrow> False | Some s \<Rightarrow> s \<noteq> [])"

text \<open>\<^verbatim>\<open>v || dflt\<close> on an optional string.\<close>

definition or_else :: "string option \<Rightarrow> string \<Rightarrow> string" where
  "or_else v dflt = (if truthy v then the v else dflt)"

subsection \<open>handleUpload\<close>

text \<open>
  Each async handler is split where it awaits: the part that runs at the call, and the
  continuation that runs when the gateway call settles. Other events can run on the
  state in between. The setters write absolute values, so the continuation acts on the
  state as it is when the response arrives.
\<close>

definition handleUpload_begin :: "state \<Rightarrow> state" where
  "handleUpload_begin s = s\<lparr> isProcessing := True, error := None, uploadProgress := 0 \<rparr>"

definition onProgress :: "int \<Rightarrow> state \<Rightarrow> state" where
  "onProgress p s = s\<lparr> uploadProgress := p \<rparr>"

definition handleUpload_settle :: "gw_error + DatasetProfile \<Rightarrow> state \<Rightarrow> state" where
  "handleUpload_settle out s =
     (case out of
        Inr profile \<Rightarrow>
          s\<lparr> jobId := Some (dp_job_id profile), datasetProfile := Some profile,
             currentData := dp_preview profile \<rparr>
      | Inl err \<Rightarrow> s\<lparr> error := Some (or_else err ''Upload failed'') \<rparr>)
     \<lparr> isProcessing := False \<rparr>"

definition handleUpload :: "gateway \<Rightarrow> File \<Rightarrow> state \<Rightarrow> state \<times> request list" where
  "handleUpload gw file s =
     (let (ps, out) = uploadFile gw file
      in (handleUpload_settle out (fold onProgress ps (handleUpload_begin s)), [UploadReq file]))"

subsection \<open>handleTransformRequest\<close>

definition handleTransformRequest_begin :: "state \<Rightarrow> state" where
  "handleTransformRequest_begin s = s\<lparr> isProcessing := True, error := None \<rparr>"

definition handleTransformRequest_settle :: "gw_error + PlanResponse \<Rightarrow> state \<Rightarrow> state" where
  "handleTransformRequest_settle out s =
     (case out of
        Inr plan \<Rightarrow> s\<lparr> proposedSteps := pr_steps plan \<rparr>
      | Inl err \<Rightarrow> s\<lparr> error := Some (or_else err ''Planning failed'') \<rparr>)
     \<lparr> isProcessing := False \<rparr>"

definition handleTransformRequest :: "gateway \<Rightarrow> string \<Rightarrow> state \<Rightarrow> state \<times> request list" where
  "handleTransformRequest gw prompt s =
     (if \<not> truthy (jobId s) then (s, [])
      else
        let jid = the (jobId s)
        in (handleTransformRequest_settle (generatePlan gw jid prompt)
              (handleTransformRequest_begin s),
            [TransformReq jid prompt]))"

subsection \<open>handleExecute\<close>

definition handleExecute_begin :: "state \<Rightarrow> state" where
  "handleExecute_begin s = s\<lparr> isProcessing := True, error := None \<rparr>"

definition handleExecute_settle :: "gw_error + ExecutionResult \<Rightarrow> state \<Rightarrow> state" where
  "handleExecute_settle out s =
     (case out of
        Inr result \<Rightarrow>
          (let s1 = s\<lparr> executionResult := Some result \<rparr>
           in if er_status result = Failed
              then s1\<lparr> error := Some (or_else (er_error result) ''Execution failed'') \<rparr>
              else s1)
      | Inl err \<Rightarrow> s\<lparr> error := Some (or_else err ''Execution failed'') \<rparr>)
     \<lparr> isProcessing := False \<rparr>"

definition handleExecute :: "gateway \<Rightarrow> state \<Rightarrow> state \<times> request list" where
  "handleExecute gw s =
     (if \<not> truthy (jobId s) then (s, [])
      else
        let jid = the (jobId s)
        in (handleExecute_settle (executePlan gw jid) (handleExecute_begin s),
            [ExecuteReq jid True]))"

subsection \<open>reset\<close>

definition reset :: "state \<Rightarrow> state" where
  "reset s = s\<lparr> jobId := None, datasetProfile := None, proposedSteps := [],
     executionResult := None, currentData := [], error := None, uploadProgress := 0 \<rparr>"

subsection \<open>Responses that arrive late\<close>

text \<open>
  A settled gateway call of any of the three kinds, and the continuation that receives
  it. \<open>response_jobId\<close> reads the \<^verbatim>\<open>job_id\<close> a resolved call carries.
\<close>

datatype response =
  UploadResp "gw_error + DatasetProfile"
| PlanResp "gw_error + PlanResponse"
| ExecuteResp "gw_error + ExecutionResult"

fun apply_response :: "response \<Rightarrow> state \<Rightarrow> state" where
  "apply_response (UploadResp out) s = handleUpload_settle out s"
| "apply_response (PlanResp out) s = handleTransformRequest_settle out s"
| "apply_response (ExecuteResp out) s = handleExecute_settle out s"

fun response_jobId :: "response \<Rightarrow> string option" where
  "response_jobId (UploadResp (Inr profile)) = Some (dp_job_id profile)"
| "response_jobId (PlanResp (Inr plan)) = Some (pr_job_id plan)"
| "response_jobId (ExecuteResp (Inr result)) = Some (er_job_id result)"
| "response_jobId _ = None"

section \<open>The diff viewer (components/DataDiffViewer.tsx)\<close>

text \<open>
  The viewer renders two tables. A rendered cell is the conditional part of its
  \<^verbatim>\<open>className\<close> and its text. In the left table a cell of an original row is struck
  through when the cleaned preview has no row at that index; in the right table a cell of
  a cleaned row is highlighted when \<^verbatim>\<open>isChanged\<close> holds.
\<close>

record td =
  className :: string
  children :: string

definition removed_class :: string where
  "removed_class = ''line-through text-red-500/50''"

definition changed_class :: string where
  "changed_class = ''bg-emerald-500/10 text-emerald-400''"

text \<open>\<^verbatim>\<open>!!cleanedData\<close>: an array is truthy, also the empty one.\<close>

definition showDiff :: "row list option \<Rightarrow> bool" where
  "showDiff cleanedData = (cleanedData \<noteq> None)"

definition left_td :: "row list option \<Rightarrow> nat \<Rightarrow> row \<Rightarrow> ColumnProfile \<Rightarrow> td" where
  "left_td cleanedData i row col =
     \<lparr> className =
         (if showDiff cleanedData \<and> cleanedData \<noteq> None \<and> at_index (the cleanedData) i = None
          then removed_class else []),
       children = String_js (nullish_empty (row_get row (name col))) \<rparr>"

definition left_pane :: "row list \<Rightarrow> row list option \<Rightarrow> ColumnProfile list \<Rightarrow> td list list" where
  "left_pane originalData cleanedData columns =
     map (\<lambda>(i, row). map (left_td cleanedData i row) columns) (enumerate 0 originalData)"

definition isChanged :: "row list \<Rightarrow> nat \<Rightarrow> row \<Rightarrow> ColumnProfile \<Rightarrow> bool" where
  "isChanged originalData i row col =
     (let originalVal =
            (case at_index originalData i of Some r \<Rightarrow> row_get r (name col) | None \<Rightarrow> JUndefined);
          newVal = row_get row (name col)
      in at_index originalData i \<noteq> None \<and> String_js originalVal \<noteq> String_js newVal)"

definition right_td :: "row list \<Rightarrow> nat \<Rightarrow> row \<Rightarrow> ColumnProfile \<Rightarrow> td" where
  "right_td originalData i row col =
     \<lparr> className = (if isChanged originalData i row col then changed_class else []),
       children = String_js (nullish_empty (row_get row (name col))) \<rparr>"

text \<open>The right table is rendered only when \<^verbatim>\<open>showDiff && cleanedData\<close>.\<close>

definition right_pane ::
  "row list \<Rightarrow> row list option \<Rightarrow> ColumnProfile list \<Rightarrow> td list list option" where
  "right_pane originalData cleanedData columns =
     (if showDiff cleanedData \<and> cleanedData \<noteq> None
      then Some (map (\<lambda>(i, row). map (right_td originalData i row) columns)
                  (enumerate 0 (the cleanedData)))
      else None)"

section \<open>Sample data\<close>

text \<open>
  A three-row, two-column upload, a one-step plan and execution results, used where a
  property is evaluated on concrete input.
\<close>

definition sample_file :: File where
  "sample_file = \<lparr> file_name = ''towns.csv'', file_size = 57 \<rparr>"

definition sample_columns :: "ColumnProfile list" where
  "sample_columns =
     [\<lparr> name = ''id'', dtype = ''int64'', null_count = 0, unique_count = 3,
        sample_values = [JNum 1, JNum 2, JNum 3] \<rparr>,
      \<lparr> name = ''town'', dtype = ''object'', null_count = 1, unique_count = 2,
        sample_values = [JStr ''Oslo'', JStr ''Rome''] \<rparr>]"

definition sample_preview :: "row list" where
  "sample_preview =
     [[(''id'', JNum 1), (''town'', JStr ''Oslo'')],
      [(''id'', JNum 2), (''town'', JNull)],
      [(''id'', JNum 3), (''town'', JStr ''Rome'')]]"

definition sample_cleaned :: "row list" where
  "sample_cleaned =
     [[(''id'', JNum 1), (''town'', JStr ''OSLO'')],
      [(''id'', JNum 2), (''town'', JStr '''')]]"

definition sample_profile :: "string \<Rightarrow> DatasetProfile" where
  "sample_profile jid =
     \<lparr> dp_job_id = jid, dp_filename = ''towns.csv'', dp_total_rows = 3,
       dp_columns = sample_columns, dp_preview = sample_preview \<rparr>"

definition sample_step :: TransformStep where
  "sample_step =
     \<lparr> operation = ''upper'', parameters = [(''column'', JStr ''town'')],
       target_column = Some ''town'', explanation = None \<rparr>"

definition sample_result :: "string \<Rightarrow> status \<Rightarrow> string option \<Rightarrow> ExecutionResult" where
  "sample_result jid st err =
     \<lparr> er_job_id = jid, er_status = st, er_download_url = None, er_metrics = [],
       er_error = err, er_preview = None \<rparr>"

text \<open>A gateway whose calls all resolve, and one whose calls all reject with a given detail.\<close>

definition gw_up :: "string \<Rightarrow> status \<Rightarrow> string option \<Rightarrow> gateway" where
  "gw_up jid st err =
     \<lparr> uploadFile = (\<lambda>f. ([40, 100], Inr (sample_profile jid))),
       generatePlan = (\<lambda>j p. Inr \<lparr> pr_job_id = j, pr_steps = [sample_step],
                                   pr_estimated_impact = ''1 column'' \<rparr>),
       executePlan = (\<lambda>j. Inr (sample_result j st err)) \<rparr>"

definition gw_down :: "string option \<Rightarrow> gateway" where
  "gw_down detail =
     \<lparr> uploadFile = (\<lambda>f. ([40], Inl detail)),
       generatePlan = (\<lambda>j p. Inl detail),
       executePlan = (\<lambda>j. Inl detail) \<rparr>"

text \<open>The controller with job \<open>j1\<close> uploaded, and with a plan proposed for it.\<close>

definition profiled :: state where
  "profiled = fst (handleUpload (gw_up ''j1'' Completed None) sample_file initial)"

definition planned :: state where
  "planned = fst (handleTransformRequest (gw_up ''j1'' Completed None) ''upper-case towns'' profiled)"

section \<open>Properties of the controller\<close>

lemma truthy_None [simp]: "\<not> truthy None"
  by (simp add: truthy_def)

lemma truthy_Some [simp]: "truthy (Some s) \<longleftrightarrow> s \<noteq> []"
  by (simp add: truthy_def)

lemma or_else_None [simp]: "or_else None d = d"
  by (simp add: or_else_def)

lemma or_else_Some [simp]: "or_else (Some s) d = (if s = [] then d else s)"
  by (simp add: or_else_def)

lemma fold_onProgress:
  "fold onProgress ps s = s\<lparr> uploadProgress := (if ps = [] then uploadProgress s else last ps) \<rparr>"
  by (induction ps arbitrary: s) (auto simp: onProgress_def)

lemma profiled_eq:
  "profiled = \<lparr> jobId = Some ''j1'', datasetProfile = Some (sample_profile ''j1''),
     proposedSteps = [], isProcessing = False, error = None, uploadProgress = 100,
     executionResult = None, currentData = sample_preview \<rparr>"
  by (simp add: profiled_def handleUpload_def gw_up_def handleUpload_settle_def
      handleUpload_begin_def onProgress_def initial_def sample_profile_def)

lemma planned_eq: "planned = profiled\<lparr> proposedSteps := [sample_step] \<rparr>"
  by (simp add: planned_def profiled_eq handleTransformRequest_def gw_up_def
      handleTransformRequest_settle_def handleTransformRequest_begin_def)

lemma handleExecute_inactive: "\<not> truthy (jobId s) \<Longrightarrow> handleExecute gw s = (s, [])"
  by (simp add: handleExecute_def)

lemma handleExecute_active:
  "truthy (jobId s) \<Longrightarrow>
     handleExecute gw s =
       (handleExecute_settle (executePlan gw (the (jobId s))) (handleExecute_begin s),
        [ExecuteReq (the (jobId s)) True])"
  by (simp add: handleExecute_def Let_def)

lemma handleExecute_begin_steps:
  "handleExecute_begin (s\<lparr> proposedSteps := steps \<rparr>) =
     (handleExecute_begin s)\<lparr> proposedSteps := steps \<rparr>"
  by (simp add: handleExecute_begin_def)

lemma handleExecute_settle_steps:
  "handleExecute_settle out (s\<lparr> proposedSteps := steps \<rparr>) =
     (handleExecute_settle out s)\<lparr> proposedSteps := steps \<rparr>"
  by (cases out) (simp_all add: handleExecute_settle_def Let_def)

lemma handleUpload_rejected:
  "uploadFile gw file = (ps, Inl err) \<Longrightarrow>
     fst (handleUpload gw file s) =
       s\<lparr> isProcessing := False, error := Some (or_else err ''Upload failed''),
          uploadProgress := (if ps = [] then 0 else last ps) \<rparr>"
  by (simp add: handleUpload_def handleUpload_settle_def handleUpload_begin_def fold_onProgress)

lemma handleUpload_resolved:
  "uploadFile gw file = (ps, Inr profile) \<Longrightarrow>
     fst (handleUpload gw file s) =
       s\<lparr> isProcessing := False, error := None,
          uploadProgress := (if ps = [] then 0 else last ps),
          jobId := Some (dp_job_id profile), datasetProfile := Some profile,
          currentData := dp_preview profile \<rparr>"
  by (simp add: handleUpload_def handleUpload_settle_def handleUpload_begin_def fold_onProgress)

text \<open>
  C1 (as stated: a response whose job id differs from the controller's leaves every
  observable field unchanged). It fails: job \<open>j1\<close> has a plan, its execution is
  requested, \<open>reset\<close> runs while the request is in flight, and the response for \<open>j1\<close>
  then arrives at a controller whose job id is null. The result is stored all the same.
\<close>

theorem stale_response_counterexample:
  "jobId (reset (handleExecute_begin planned)) = None
   \<and> response_jobId (ExecuteResp (Inr (sample_result ''j1'' Completed None))) = Some ''j1''
   \<and> executionResult (reset (handleExecute_begin planned)) = None
   \<and> executionResult
        (apply_response (ExecuteResp (Inr (sample_result ''j1'' Completed None)))
           (reset (handleExecute_begin planned)))
       = Some (sample_result ''j1'' Completed None)"
  by (simp add: reset_def handleExecute_begin_def handleExecute_settle_def sample_result_def)

text \<open>
  C1 (amended). The continuations never compare a response's job id with the
  controller's: a resolved response is applied whatever the current job id is. It leaves
  unchanged the fields its handler never writes. An execute response stores the result,
  sets the error when the status is \<open>failed\<close> (to the result's error text when that is
  present and not empty, to \<open>Execution failed\<close> otherwise) and leaves the error as it
  was for any other status, and it leaves job id, profile, plan, working preview and
  progress; a plan response replaces the plan and leaves job id, profile, result, working
  preview, error and progress; an upload response replaces job id, profile and working
  preview and leaves plan, result, error and progress.
\<close>

theorem stale_response_applied:
  "(executionResult (apply_response (ExecuteResp (Inr result)) s) = Some result
    \<and> error (apply_response (ExecuteResp (Inr result)) s) =
        (if er_status result = Failed
         then Some (or_else (er_error result) ''Execution failed'') else error s)
    \<and> jobId (apply_response (ExecuteResp (Inr result)) s) = jobId s
    \<and> datasetProfile (apply_response (ExecuteResp (Inr result)) s) = datasetProfile s
    \<and> proposedSteps (apply_response (ExecuteResp (Inr result)) s) = proposedSteps s
    \<and> currentData (apply_response (ExecuteResp (Inr result)) s) = currentData s
    \<and> uploadProgress (apply_response (ExecuteResp (Inr result)) s) = uploadProgress s)
   \<and> (proposedSteps (apply_response (PlanResp (Inr plan)) s) = pr_steps plan
    \<and> jobId (apply_response (PlanResp (Inr plan)) s) = jobId s
    \<and> datasetProfile (apply_response (PlanResp (Inr plan)) s) = datasetProfile s
    \<and> executionResult (apply_response (PlanResp (Inr plan)) s) = executionResult s
    \<and> currentData (apply_response (PlanResp (Inr plan)) s) = currentData s
    \<and> error (apply_response (PlanResp (Inr plan)) s) = error s
    \<and> uploadProgress (apply_response (PlanResp (Inr plan)) s) = uploadProgress s)
   \<and> (jobId (apply_response (UploadResp (Inr profile)) s) = Some (dp_job_id profile)
    \<and> datasetProfile (apply_response (UploadResp (Inr profile)) s) = Some profile
    \<and> currentData (apply_response (UploadResp (Inr profile)) s) = dp_preview profile
    \<and> proposedSteps (apply_response (UploadResp (Inr profile)) s) = proposedSteps s
    \<and> executionResult (apply_response (UploadResp (Inr profile)) s) = executionResult s
    \<and> error (apply_response (UploadResp (Inr profile)) s) = error s
    \<and> uploadProgress (apply_response (UploadResp (Inr profile)) s) = uploadProgress s)"
  by (simp add: handleExecute_settle_def handleTransformRequest_settle_def
      handleUpload_settle_def Let_def)

theorem stale_response_applied_witness:
  "jobId (reset (handleExecute_begin planned)) = None
   \<and> er_job_id (sample_result ''j1'' Failed (Some ''division by zero'')) = ''j1''
   \<and> executionResult
        (apply_response (ExecuteResp (Inr (sample_result ''j1'' Failed (Some ''division by zero''))))
           (reset (handleExecute_begin planned)))
       = Some (sample_result ''j1'' Failed (Some ''division by zero''))
   \<and> error
        (apply_response (ExecuteResp (Inr (sample_result ''j1'' Failed (Some ''division by zero''))))
           (reset (handleExecute_begin planned)))
       = Some ''division by zero''
   \<and> jobId
        (apply_response (ExecuteResp (Inr (sample_result ''j1'' Failed (Some ''division by zero''))))
           (reset (handleExecute_begin planned)))
       = None"
proof -
  have gone: "jobId (reset (handleExecute_begin planned)) = None"
    by (simp add: reset_def)
  have res: "er_job_id (sample_result ''j1'' Failed (Some ''division by zero'')) = ''j1''"
      "er_status (sample_result ''j1'' Failed (Some ''division by zero'')) = Failed"
      "er_error (sample_result ''j1'' Failed (Some ''division by zero'')) = Some ''division by zero''"
    by (simp_all add: sample_result_def)
  from stale_response_applied [of "sample_result ''j1'' Failed (Some ''division by zero'')"
      "reset (handleExecute_begin planned)"] gone res
  show ?thesis
    by simp
qed

text \<open>
  C2 (as stated: after a resolved execute call no error is surfaced if and only if the
  status is \<open>completed\<close>, and every other status surfaces the result's error). It
  fails at status \<open>processing\<close>, where no error is set, and at status \<open>failed\<close> with
  no error text, where the stage default is shown.
\<close>

theorem execute_status_counterexample:
  "truthy (jobId planned)
   \<and> executePlan (gw_up ''j1'' Processing None) (the (jobId planned))
       = Inr (sample_result ''j1'' Processing None)
   \<and> er_status (sample_result ''j1'' Processing None) \<noteq> Completed
   \<and> error (fst (handleExecute (gw_up ''j1'' Processing None) planned)) = None
   \<and> er_error (sample_result ''j1'' Failed None) = None
   \<and> error (fst (handleExecute (gw_up ''j1'' Failed None) planned)) = Some ''Execution failed''"
  by (simp add: planned_eq profiled_eq handleExecute_def handleExecute_settle_def
      handleExecute_begin_def gw_up_def sample_result_def Let_def)

text \<open>
  C2 (amended). When a job is active and the gateway execute call resolves, the result
  is stored, and an error is surfaced if and only if the status is \<open>failed\<close>: then the
  active error is the result's error text when it is present and not empty, and
  \<open>Execution failed\<close> otherwise. For \<open>completed\<close> and for the four other statuses no
  error is set.
\<close>

theorem execute_result_stored:
  "truthy (jobId s) \<Longrightarrow> executePlan gw (the (jobId s)) = Inr result \<Longrightarrow>
     executionResult (fst (handleExecute gw s)) = Some result
     \<and> (error (fst (handleExecute gw s)) = None \<longleftrightarrow> er_status result \<noteq> Failed)
     \<and> (er_status result = Failed \<longrightarrow>
          error (fst (handleExecute gw s)) =
            Some (if er_error result = None \<or> er_error result = Some []
                  then ''Execution failed'' else the (er_error result)))
     \<and> snd (handleExecute gw s) = [ExecuteReq (the (jobId s)) True]"
  by (cases "er_error result")
     (simp_all add: handleExecute_def handleExecute_settle_def handleExecute_begin_def Let_def)

theorem execute_result_stored_witness:
  "executionResult (fst (handleExecute (gw_up ''j1'' Failed (Some ''division by zero'')) planned))
     = Some (sample_result ''j1'' Failed (Some ''division by zero''))
   \<and> error (fst (handleExecute (gw_up ''j1'' Failed (Some ''division by zero'')) planned))
     = Some ''division by zero''
   \<and> error (fst (handleExecute (gw_up ''j1'' Completed None) planned)) = None
   \<and> snd (handleExecute (gw_up ''j1'' Completed None) planned) = [ExecuteReq ''j1'' True]"
  using execute_result_stored [of planned "gw_up ''j1'' Failed (Some ''division by zero'')"
          "sample_result ''j1'' Failed (Some ''division by zero'')"]
        execute_result_stored [of planned "gw_up ''j1'' Completed None"
          "sample_result ''j1'' Completed None"]
  by (simp add: planned_eq profiled_eq gw_up_def sample_result_def)

text \<open>
  C3 (as stated: the previous plan is cleared at the start of \<open>requestPlan\<close>, so the
  plan is empty after a failed plan call). It fails: with a plan proposed and the
  gateway rejecting, the earlier plan is still there after the call.
\<close>

theorem plan_cleared_counterexample:
  "truthy (jobId planned)
   \<and> generatePlan (gw_down None) (the (jobId planned)) ''drop nulls'' = Inl None
   \<and> proposedSteps (handleTransformRequest_begin planned) = [sample_step]
   \<and> proposedSteps (fst (handleTransformRequest (gw_down None) ''drop nulls'' planned))
       = [sample_step]"
  by (simp add: planned_eq profiled_eq handleTransformRequest_def
      handleTransformRequest_settle_def handleTransformRequest_begin_def gw_down_def Let_def)

text \<open>
  C3 (amended). \<open>requestPlan\<close> with an active job does not clear the proposed plan at
  the start of the call. If the gateway plan call fails, the proposed plan is the one
  from before the call, the error is the server's detail when it is present and not
  empty and \<open>Planning failed\<close> otherwise, and job id and dataset profile are
  unchanged.
\<close>

theorem plan_failure_keeps_plan:
  "truthy (jobId s) \<Longrightarrow> generatePlan gw (the (jobId s)) prompt = Inl err \<Longrightarrow>
     proposedSteps (handleTransformRequest_begin s) = proposedSteps s
     \<and> proposedSteps (fst (handleTransformRequest gw prompt s)) = proposedSteps s
     \<and> error (fst (handleTransformRequest gw prompt s)) =
         Some (if err = None \<or> err = Some [] then ''Planning failed'' else the err)
     \<and> jobId (fst (handleTransformRequest gw prompt s)) = jobId s
     \<and> datasetProfile (fst (handleTransformRequest gw prompt s)) = datasetProfile s"
  by (cases err)
     (simp_all add: handleTransformRequest_def handleTransformRequest_settle_def
        handleTransformRequest_begin_def Let_def)

theorem plan_failure_keeps_plan_witness:
  "proposedSteps (fst (handleTransformRequest (gw_down (Some ''planner unavailable'')) ''drop nulls'' planned))
     = [sample_step]
   \<and> error (fst (handleTransformRequest (gw_down (Some ''planner unavailable'')) ''drop nulls'' planned))
     = Some ''planner unavailable''
   \<and> jobId (fst (handleTransformRequest (gw_down (Some ''planner unavailable'')) ''drop nulls'' planned))
     = Some ''j1''"
  using plan_failure_keeps_plan [of planned "gw_down (Some ''planner unavailable'')" "''drop nulls''"
          "Some ''planner unavailable''"]
  by (simp add: planned_eq profiled_eq gw_down_def)

text \<open>
  C4 (as stated: \<open>confirmPlan\<close> calls the gateway only when a plan is proposed, and with
  no proposed plan it makes no call and changes nothing). It fails: with job \<open>j1\<close>
  active and an empty plan the execute request is sent and the result is stored.
\<close>

theorem confirm_without_plan_counterexample:
  "proposedSteps profiled = []
   \<and> snd (handleExecute (gw_up ''j1'' Completed None) profiled) = [ExecuteReq ''j1'' True]
   \<and> executionResult profiled = None
   \<and> executionResult (fst (handleExecute (gw_up ''j1'' Completed None) profiled))
       = Some (sample_result ''j1'' Completed None)"
  by (simp add: profiled_eq handleExecute_def handleExecute_settle_def
      handleExecute_begin_def gw_up_def sample_result_def Let_def)

text \<open>
  C4 (amended). \<open>confirmPlan\<close> invokes the gateway execute operation exactly when a job
  is active (the job id is neither null nor empty), whether or not a plan is proposed:
  it neither reads nor writes the proposed plan. With no active job it makes no gateway
  call and leaves the state unchanged.
\<close>

theorem confirm_gated_by_job:
  "(snd (handleExecute gw s) = [ExecuteReq (the (jobId s)) True] \<longleftrightarrow> truthy (jobId s))
   \<and> (snd (handleExecute gw s) = [] \<longleftrightarrow> \<not> truthy (jobId s))
   \<and> (\<not> truthy (jobId s) \<longrightarrow> fst (handleExecute gw s) = s)
   \<and> handleExecute gw (s\<lparr> proposedSteps := steps \<rparr>) =
       ((fst (handleExecute gw s))\<lparr> proposedSteps := steps \<rparr>, snd (handleExecute gw s))"
proof (cases "truthy (jobId s)")
  case True
  then show ?thesis
    by (simp add: handleExecute_active handleExecute_settle_steps handleExecute_begin_steps)
next
  case False
  then show ?thesis
    by (simp add: handleExecute_inactive)
qed

theorem confirm_gated_by_job_witness:
  "snd (handleExecute (gw_up ''j1'' Completed None) profiled) = [ExecuteReq ''j1'' True]
   \<and> truthy (jobId profiled)
   \<and> proposedSteps profiled = []
   \<and> snd (handleExecute (gw_up ''j1'' Completed None) initial) = []
   \<and> fst (handleExecute (gw_up ''j1'' Completed None) initial) = initial"
proof -
  have active: "truthy (jobId profiled)" and empty: "proposedSteps profiled = []"
    by (simp_all add: profiled_eq)
  have inactive: "\<not> truthy (jobId initial)"
    by (simp add: initial_def)
  have the_job: "the (jobId profiled) = ''j1''"
    by (simp add: profiled_eq)
  from confirm_gated_by_job [of "gw_up ''j1'' Completed None" profiled "[]"] active the_job
  have sent: "snd (handleExecute (gw_up ''j1'' Completed None) profiled) = [ExecuteReq ''j1'' True]"
    by simp
  from confirm_gated_by_job [of "gw_up ''j1'' Completed None" initial "[]"] inactive
  have skipped: "snd (handleExecute (gw_up ''j1'' Completed None) initial) = []
      \<and> fst (handleExecute (gw_up ''j1'' Completed None) initial) = initial"
    by blast
  from sent active empty skipped show ?thesis
    by blast
qed

text \<open>
  C8 (as stated: a failed upload surfaces the server's detail when present, else
  \<open>Upload failed\<close>, and the job id is null afterwards). It fails: a failed upload
  while job \<open>j1\<close> is active leaves the job id \<open>j1\<close>, and a detail that is present but
  empty gives \<open>Upload failed\<close>.
\<close>

theorem upload_failure_counterexample:
  "snd (uploadFile (gw_down None) sample_file) = Inl None
   \<and> jobId (fst (handleUpload (gw_down None) sample_file profiled)) = Some ''j1''
   \<and> snd (uploadFile (gw_down (Some [])) sample_file) = Inl (Some [])
   \<and> error (fst (handleUpload (gw_down (Some [])) sample_file initial)) = Some ''Upload failed''"
  by (simp add: profiled_eq initial_def handleUpload_def handleUpload_settle_def
      handleUpload_begin_def onProgress_def gw_down_def)

text \<open>
  C8 (amended). When the gateway upload call fails, the surfaced error is the server's
  detail when it is present and not empty and \<open>Upload failed\<close> otherwise, and the
  upload writes no job state: job id, dataset profile and working preview are what they
  were before the call, so the job id is null after the failed upload whenever no job was
  active before it.
\<close>

theorem upload_failure_keeps_job:
  "snd (uploadFile gw file) = Inl err \<Longrightarrow>
     error (fst (handleUpload gw file s)) =
       Some (if err = None \<or> err = Some [] then ''Upload failed'' else the err)
     \<and> jobId (fst (handleUpload gw file s)) = jobId s
     \<and> datasetProfile (fst (handleUpload gw file s)) = datasetProfile s
     \<and> currentData (fst (handleUpload gw file s)) = currentData s
     \<and> snd (handleUpload gw file s) = [UploadReq file]"
  by (cases "uploadFile gw file"; cases err)
     (simp_all add: handleUpload_rejected, simp_all add: handleUpload_def)

theorem upload_failure_keeps_job_witness:
  "error (fst (handleUpload (gw_down (Some ''Unsupported file type'')) sample_file initial))
     = Some ''Unsupported file type''
   \<and> error (fst (handleUpload (gw_down None) sample_file initial)) = Some ''Upload failed''
   \<and> jobId (fst (handleUpload (gw_down None) sample_file initial)) = None"
  using upload_failure_keeps_job [of "gw_down (Some ''Unsupported file type'')" sample_file
          "Some ''Unsupported file type''" initial]
        upload_failure_keeps_job [of "gw_down None" sample_file None initial]
  by (simp add: gw_down_def initial_def)

text \<open>
  C9. With no active job (the job id is null), \<open>requestPlan\<close> and \<open>confirmPlan\<close>
  return at once: no gateway call is made and the state, the error included, is exactly
  what it was.
\<close>

theorem no_job_noop:
  "jobId s = None \<Longrightarrow>
     handleTransformRequest gw prompt s = (s, []) \<and> handleExecute gw s = (s, [])"
  by (simp add: handleTransformRequest_def handleExecute_def)

theorem no_job_noop_witness:
  "jobId initial = None
   \<and> handleTransformRequest (gw_up ''j1'' Completed None) ''drop nulls'' initial = (initial, [])
   \<and> handleExecute (gw_up ''j1'' Completed None) initial = (initial, [])"
  using no_job_noop [of initial "gw_up ''j1'' Completed None" "''drop nulls''"]
  by (simp add: initial_def)

text \<open>
  C10. A successful upload replaces job id, dataset profile and working preview and
  leaves the proposed plan and the execution result as they were: a plan or a result of
  an earlier job is still there after the new upload.
\<close>

theorem upload_keeps_plan_and_result:
  "snd (uploadFile gw file) = Inr profile \<Longrightarrow>
     jobId (fst (handleUpload gw file s)) = Some (dp_job_id profile)
     \<and> datasetProfile (fst (handleUpload gw file s)) = Some profile
     \<and> currentData (fst (handleUpload gw file s)) = dp_preview profile
     \<and> proposedSteps (fst (handleUpload gw file s)) = proposedSteps s
     \<and> executionResult (fst (handleUpload gw file s)) = executionResult s"
  by (cases "uploadFile gw file") (simp add: handleUpload_resolved)

theorem upload_keeps_plan_and_result_witness:
  "jobId (fst (handleUpload (gw_up ''j2'' Completed None) sample_file
       (fst (handleExecute (gw_up ''j1'' Completed None) planned)))) = Some ''j2''
   \<and> proposedSteps (fst (handleUpload (gw_up ''j2'' Completed None) sample_file
       (fst (handleExecute (gw_up ''j1'' Completed None) planned)))) = [sample_step]
   \<and> executionResult (fst (handleUpload (gw_up ''j2'' Completed None) sample_file
       (fst (handleExecute (gw_up ''j1'' Completed None) planned))))
     = Some (sample_result ''j1'' Completed None)"
  using upload_keeps_plan_and_result [of "gw_up ''j2'' Completed None" sample_file
          "sample_profile ''j2''" "fst (handleExecute (gw_up ''j1'' Completed None) planned)"]
  by (simp add: planned_eq profiled_eq gw_up_def sample_profile_def sample_result_def
      handleExecute_def handleExecute_settle_def handleExecute_begin_def Let_def)

text \<open>
  C7. \<open>reset\<close> from any state gives the initial snapshot: no job id, no profile, an
  empty plan, no execution result, no error, progress 0 and an empty working preview.
  (The \<open>isProcessing\<close> flag is the one field \<open>reset\<close> does not write.)
\<close>

theorem reset_initial:
  "reset s = initial\<lparr> isProcessing := isProcessing s \<rparr>
   \<and> jobId (reset s) = None \<and> datasetProfile (reset s) = None \<and> proposedSteps (reset s) = []
   \<and> executionResult (reset s) = None \<and> error (reset s) = None
   \<and> uploadProgress (reset s) = 0 \<and> currentData (reset s) = []"
  by (simp add: reset_def initial_def)

section \<open>Properties of the diff viewer\<close>

lemma at_index_Some [simp]: "i < length xs \<Longrightarrow> at_index xs i = Some (xs ! i)"
  by (simp add: at_index_def)

lemma at_index_None [simp]: "length xs \<le> i \<Longrightarrow> at_index xs i = None"
  by (simp add: at_index_def)

lemma left_pane_length [simp]: "length (left_pane originalData cleanedData columns) = length originalData"
  by (simp add: left_pane_def)

lemma left_pane_row:
  "i < length originalData \<Longrightarrow>
     left_pane originalData cleanedData columns ! i =
       map (left_td cleanedData i (originalData ! i)) columns"
  by (simp add: left_pane_def nth_enumerate_eq)

lemma right_pane_row:
  "i < length cleaned \<Longrightarrow>
     the (right_pane originalData (Some cleaned) columns) ! i =
       map (right_td originalData i (cleaned ! i)) columns"
  by (simp add: right_pane_def showDiff_def nth_enumerate_eq)

lemma right_pane_cell:
  "i < length cleaned \<Longrightarrow> k < length columns \<Longrightarrow>
     the (right_pane originalData (Some cleaned) columns) ! i ! k =
       right_td originalData i (cleaned ! i) (columns ! k)"
  by (simp add: right_pane_row)

lemma changed_class_nonempty [simp]: "changed_class \<noteq> []" "[] \<noteq> changed_class"
  by (simp_all add: changed_class_def)

lemma right_td_class:
  "className (right_td originalData i row col) = changed_class \<longleftrightarrow> isChanged originalData i row col"
  by (simp add: right_td_def)

lemma isChanged_iff:
  "isChanged originalData i row col \<longleftrightarrow>
     i < length originalData
     \<and> String_js (row_get (originalData ! i) (name col)) \<noteq> String_js (row_get row (name col))"
  by (cases "i < length originalData") (simp_all add: isChanged_def Let_def)

lemma isChanged_same_members:
  "row_get (originalData ! i) (name col) = row_get row (name col) \<Longrightarrow>
     \<not> isChanged originalData i row col"
  by (simp add: isChanged_iff)

text \<open>
  C5 (as stated: a cell is changed if and only if the two values differ as text after
  null and undefined are coerced to the empty string). It fails in row 1 of the sample:
  the original town is null and the cleaned one is the empty string, the coerced texts
  are equal, and the cell is highlighted as changed, since the comparison is between
  \<open>null\<close> and the empty text.
\<close>

theorem diff_coercion_counterexample:
  "row_get (sample_preview ! 1) ''town'' = JNull
   \<and> row_get (sample_cleaned ! 1) ''town'' = JStr []
   \<and> String_js (nullish_empty (row_get (sample_preview ! 1) ''town''))
       = String_js (nullish_empty (row_get (sample_cleaned ! 1) ''town''))
   \<and> name (sample_columns ! 1) = ''town''
   \<and> className (the (right_pane sample_preview (Some sample_cleaned) sample_columns) ! 1 ! 1)
       = changed_class"
  by (simp add: right_pane_def showDiff_def right_td_def isChanged_def at_index_def row_get_def
      sample_preview_def sample_cleaned_def sample_columns_def Let_def)

text \<open>
  C5 (amended). For a row index \<open>i\<close> below the number of cleaned rows and a column
  \<open>c\<close>, the cell is changed if and only if the original preview has a row \<open>i\<close> and
  \<open>String(original[i][c])\<close> differs from \<open>String(cleaned[i][c])\<close>, with no coercion
  to the empty string: null reads \<open>null\<close> and an absent value \<open>undefined\<close>. Otherwise
  the cell is unchanged. For two sequences of equal length whose rows have the same
  values every cell is unchanged, and replacing the value of one cell, in the cleaned or
  in the original preview, leaves the classification of every other cell as it was.
\<close>

theorem diff_changed_cells:
  assumes "i < length cleaned" and "k < length columns"
  shows
    "(className (the (right_pane original (Some cleaned) columns) ! i ! k) = changed_class
        \<longleftrightarrow> i < length original
            \<and> String_js (row_get (original ! i) (name (columns ! k)))
                \<noteq> String_js (row_get (cleaned ! i) (name (columns ! k))))
     \<and> (className (the (right_pane original (Some cleaned) columns) ! i ! k) \<noteq> changed_class
        \<longrightarrow> className (the (right_pane original (Some cleaned) columns) ! i ! k) = [])
     \<and> (length original = length cleaned
         \<and> (\<forall>j < length cleaned. \<forall>c. row_get (original ! j) c = row_get (cleaned ! j) c)
        \<longrightarrow> className (the (right_pane original (Some cleaned) columns) ! i ! k) = [])
     \<and> (j < length cleaned \<and> (\<forall>c'. c' \<noteq> c \<longrightarrow> row_get r c' = row_get (cleaned ! j) c')
         \<and> (i \<noteq> j \<or> name (columns ! k) \<noteq> c)
        \<longrightarrow> className (the (right_pane original (Some (cleaned[j := r])) columns) ! i ! k)
            = className (the (right_pane original (Some cleaned) columns) ! i ! k))
     \<and> (j < length original \<and> (\<forall>c'. c' \<noteq> c \<longrightarrow> row_get r c' = row_get (original ! j) c')
         \<and> (i \<noteq> j \<or> name (columns ! k) \<noteq> c)
        \<longrightarrow> className (the (right_pane (original[j := r]) (Some cleaned) columns) ! i ! k)
            = className (the (right_pane original (Some cleaned) columns) ! i ! k))"
proof -
  let ?col = "columns ! k"
  have cell: "the (right_pane original (Some cleaned) columns) ! i ! k
      = right_td original i (cleaned ! i) ?col"
    using assms by (rule right_pane_cell)
  have iff: "className (right_td original i (cleaned ! i) ?col) = changed_class
      \<longleftrightarrow> i < length original
          \<and> String_js (row_get (original ! i) (name ?col))
              \<noteq> String_js (row_get (cleaned ! i) (name ?col))"
    by (simp add: right_td_class isChanged_iff)
  have other: "className (right_td original i (cleaned ! i) ?col) \<noteq> changed_class
      \<longrightarrow> className (right_td original i (cleaned ! i) ?col) = []"
    by (simp add: right_td_def)
  have same: "className (right_td original i (cleaned ! i) ?col) = []"
    if "length original = length cleaned"
      and "\<forall>j < length cleaned. \<forall>c. row_get (original ! j) c = row_get (cleaned ! j) c"
  proof -
    from that assms have "row_get (original ! i) (name ?col) = row_get (cleaned ! i) (name ?col)"
      by blast
    then show ?thesis
      by (simp add: right_td_def isChanged_same_members)
  qed
  have upd_cleaned: "className (the (right_pane original (Some (cleaned[j := r])) columns) ! i ! k)
      = className (right_td original i (cleaned ! i) ?col)"
    if "j < length cleaned" and "\<forall>c'. c' \<noteq> c \<longrightarrow> row_get r c' = row_get (cleaned ! j) c'"
      and "i \<noteq> j \<or> name ?col \<noteq> c"
  proof -
    from assms have "the (right_pane original (Some (cleaned[j := r])) columns) ! i ! k
        = right_td original i (cleaned[j := r] ! i) ?col"
      by (simp add: right_pane_cell)
    moreover from that have "row_get (cleaned[j := r] ! i) (name ?col) = row_get (cleaned ! i) (name ?col)"
      by (cases "i = j") auto
    ultimately show ?thesis
      by (simp add: right_td_def isChanged_iff)
  qed
  have upd_original: "className (the (right_pane (original[j := r]) (Some cleaned) columns) ! i ! k)
      = className (right_td original i (cleaned ! i) ?col)"
    if "j < length original" and "\<forall>c'. c' \<noteq> c \<longrightarrow> row_get r c' = row_get (original ! j) c'"
      and "i \<noteq> j \<or> name ?col \<noteq> c"
  proof -
    from assms have "the (right_pane (original[j := r]) (Some cleaned) columns) ! i ! k
        = right_td (original[j := r]) i (cleaned ! i) ?col"
      by (rule right_pane_cell)
    moreover from that have "i < length original \<Longrightarrow>
        row_get (original[j := r] ! i) (name ?col) = row_get (original ! i) (name ?col)"
      by (cases "i = j") auto
    ultimately show ?thesis
      by (auto simp: right_td_def isChanged_iff)
  qed
  from iff other same upd_cleaned upd_original show ?thesis
    unfolding cell by blast
qed

theorem diff_changed_cells_witness:
  "className (the (right_pane sample_preview (Some sample_cleaned) sample_columns) ! 0 ! 1)
     = changed_class
   \<and> className (the (right_pane sample_preview (Some sample_cleaned) sample_columns) ! 0 ! 0) = []
   \<and> className (the (right_pane sample_preview (Some sample_preview) sample_columns) ! 0 ! 1) = []
   \<and> className (the (right_pane sample_preview
        (Some (sample_cleaned[0 := [(''id'', JNum 1), (''town'', JStr ''Oslo'')]]))
        sample_columns) ! 0 ! 0) = []"
proof -
  have rows: "(0::nat) < length sample_cleaned" "(0::nat) < length sample_preview"
    and cols: "(1::nat) < length sample_columns" "(0::nat) < length sample_columns"
    by (simp_all add: sample_cleaned_def sample_preview_def sample_columns_def)
  have town: "name (sample_columns ! 1) = ''town''" and ident: "name (sample_columns ! 0) = ''id''"
    by (simp_all add: sample_columns_def)
  have differ: "String_js (row_get (sample_preview ! 0) ''town'')
      \<noteq> String_js (row_get (sample_cleaned ! 0) ''town'')"
    by (simp add: sample_preview_def sample_cleaned_def row_get_def)
  have agree: "String_js (row_get (sample_preview ! 0) ''id'')
      = String_js (row_get (sample_cleaned ! 0) ''id'')"
    by (simp add: sample_preview_def sample_cleaned_def row_get_def)
  have elsewhere: "\<forall>c'. c' \<noteq> ''town'' \<longrightarrow>
      row_get [(''id'', JNum 1), (''town'', JStr ''Oslo'')] c' = row_get (sample_cleaned ! 0) c'"
    by (simp add: sample_cleaned_def row_get_def)
  from diff_changed_cells [OF rows(1) cols(1), of sample_preview] rows(2) town differ
  have c1: "className (the (right_pane sample_preview (Some sample_cleaned) sample_columns) ! 0 ! 1)
      = changed_class"
    by simp
  from diff_changed_cells [OF rows(1) cols(2), of sample_preview] ident agree
  have c2: "className (the (right_pane sample_preview (Some sample_cleaned) sample_columns) ! 0 ! 0) = []"
    by simp
  from diff_changed_cells [OF rows(2) cols(1), of sample_preview]
  have c3: "className (the (right_pane sample_preview (Some sample_preview) sample_columns) ! 0 ! 1) = []"
    by simp
  from diff_changed_cells [OF rows(1) cols(2), of sample_preview 0 "''town''"
      "[(''id'', JNum 1), (''town'', JStr ''Oslo'')]"] rows(1) ident elsewhere c2
  have c4: "className (the (right_pane sample_preview
        (Some (sample_cleaned[0 := [(''id'', JNum 1), (''town'', JStr ''Oslo'')]]))
        sample_columns) ! 0 ! 0) = []"
    by simp
  from c1 c2 c3 c4 show ?thesis
    by blast
qed

text \<open>
  C6. When the cleaned preview is defined, every cell of an original row whose index is
  at or beyond the number of cleaned rows is marked as removed, in every column. (Such a
  row exists exactly when the cleaned preview has fewer rows than the original.)
\<close>

theorem diff_removed_rows:
  assumes "i < length original" and "length cleaned \<le> i"
  shows "length (left_pane original (Some cleaned) columns ! i) = length columns
    \<and> (\<forall>cell \<in> set (left_pane original (Some cleaned) columns ! i). className cell = removed_class)"
  using assms by (simp add: left_pane_row left_td_def showDiff_def)

theorem diff_removed_rows_witness:
  "length sample_cleaned < length sample_preview
   \<and> length (left_pane sample_preview (Some sample_cleaned) sample_columns ! 2) = 2
   \<and> className (left_pane sample_preview (Some sample_cleaned) sample_columns ! 2 ! 0) = removed_class
   \<and> className (left_pane sample_preview (Some sample_cleaned) sample_columns ! 2 ! 1) = removed_class"
proof -
  have inside: "(2::nat) < length sample_preview" and beyond: "length sample_cleaned \<le> (2::nat)"
    and fewer: "length sample_cleaned < length sample_preview"
    and cols: "length sample_columns = 2"
    by (simp_all add: sample_preview_def sample_cleaned_def sample_columns_def)
  from diff_removed_rows [OF inside beyond, of sample_columns] cols
  have len: "length (left_pane sample_preview (Some sample_cleaned) sample_columns ! 2) = 2"
    and all: "\<forall>cell \<in> set (left_pane sample_preview (Some sample_cleaned) sample_columns ! 2).
        className cell = removed_class"
    by simp_all
  from len all have "className (left_pane sample_preview (Some sample_cleaned) sample_columns ! 2 ! 0) = removed_class"
    and "className (left_pane sample_preview (Some sample_cleaned) sample_columns ! 2 ! 1) = removed_class"
    by (simp_all add: all_set_conv_all_nth)
  with fewer len show ?thesis
    by blast
qed

end
